theory Spec2Isabelle
  imports Main "HOL-Library.Sublist"
begin

section \<open>Python text\<close>

text \<open>
  A Python \<open>str\<close> is a sequence of Unicode code points, and \<open>chr\<close> can produce every
  code point below \<open>0x110000\<close>; a character is therefore a natural number here, not an
  8-bit \<open>char\<close>. \<open>text\<close> turns an ASCII literal into such a string.
\<close>

type_synonym pychar = nat
type_synonym pystr = "nat list"

definition "text" :: "string \<Rightarrow> pystr" where
  "text s = map of_char s"

definition ord :: "char \<Rightarrow> pychar" where
  "ord c = of_char c"

text \<open>
  The regular expressions of the program use the classes \<open>\d\<close>, \<open>\w\<close> and \<open>\s\<close> on
  \<open>str\<close> patterns, so they follow the Unicode database of the interpreter:
  \<open>\d\<close> is \<open>str.isdecimal\<close>, \<open>\w\<close> is \<open>str.isalnum\<close> or the underscore, \<open>\s\<close> is
  \<open>str.isspace\<close>. The ASCII part of each class and the whole of \<open>\s\<close> are written out
  (a decimal digit is alphanumeric).
  The decimal digits and alphanumerics beyond ASCII are tables of the interpreter, not of
  this repository: they are a parameter of the model.
\<close>

record unicode_db =
  decimal_value :: "pychar \<Rightarrow> nat option"
  alnum :: "pychar \<Rightarrow> bool"

definition isdecimal :: "unicode_db \<Rightarrow> pychar \<Rightarrow> bool" where
  "isdecimal U c = (if c < 128 then 48 \<le> c \<and> c \<le> 57 else decimal_value U c \<noteq> None)"

definition isalnum :: "unicode_db \<Rightarrow> pychar \<Rightarrow> bool" where
  "isalnum U c =
     (if c < 128 then (48 \<le> c \<and> c \<le> 57) \<or> (65 \<le> c \<and> c \<le> 90) \<or> (97 \<le> c \<and> c \<le> 122)
      else alnum U c \<or> isdecimal U c)"

text \<open>\<open>\w\<close>: alphanumeric or the underscore.\<close>

definition isword :: "unicode_db \<Rightarrow> pychar \<Rightarrow> bool" where
  "isword U c = (isalnum U c \<or> c = 95)"

definition isspace :: "pychar \<Rightarrow> bool" where
  "isspace c =
     ((9 \<le> c \<and> c \<le> 13) \<or> (28 \<le> c \<and> c \<le> 32) \<or> c = 133 \<or> c = 160 \<or> c = 5760
      \<or> (8192 \<le> c \<and> c \<le> 8202) \<or> c = 8232 \<or> c = 8233 \<or> c = 8239 \<or> c = 8287
      \<or> c = 12288)"


datatype error = ValueError | IndexError | KeyError

text \<open>
  \<open>int(s, 10)\<close> on a string of decimal digits. CPython refuses a string of more than
  4300 digits with \<open>ValueError\<close> (\<open>sys.int_info.default_max_str_digits\<close>).
\<close>

definition digit_of :: "unicode_db \<Rightarrow> pychar \<Rightarrow> nat" where
  "digit_of U c =
     (if c < 128 then c - 48 else case decimal_value U c of None \<Rightarrow> 0 | Some d \<Rightarrow> d mod 10)"

definition py_int :: "unicode_db \<Rightarrow> pystr \<Rightarrow> error + nat" where
  "py_int U ds =
     (if 4300 < length ds then Inl ValueError
      else Inr (foldl (\<lambda>a d. 10 * a + digit_of U d) 0 ds))"

text \<open>\<open>chr(n)\<close> raises \<open>ValueError\<close> outside \<open>range(0x110000)\<close>.\<close>

definition py_chr :: "nat \<Rightarrow> error + pychar" where
  "py_chr n = (if n < 1114112 then Inr n else Inl ValueError)"

text \<open>\<open>str(n)\<close> for a non-negative integer.\<close>

function py_str :: "nat \<Rightarrow> pystr" where
  "py_str n = (if n < 10 then [48 + n] else py_str (n div 10) @ [48 + n mod 10])"
  by pat_completeness auto
termination
  by (relation "measure id") auto

declare py_str.simps [simp del]

text \<open>\<open>s.strip()\<close> removes the whitespace at both ends.\<close>

definition strip :: "pystr \<Rightarrow> pystr" where
  "strip s = rev (dropWhile isspace (rev (dropWhile isspace s)))"

text \<open>
  \<open>s.replace(old, new)\<close> replaces the occurrences of \<open>old\<close> from left to right, without
  overlap. An empty \<open>old\<close> matches before every character and at the end.
\<close>

fun replace_from :: "pystr \<Rightarrow> pystr \<Rightarrow> pystr \<Rightarrow> pystr" where
  "replace_from [] old new = []"
| "replace_from (c # s) old new =
     (if prefix old (c # s) then new @ replace_from (drop (length old - 1) s) old new
      else c # replace_from s old new)"

definition replace :: "pystr \<Rightarrow> pystr \<Rightarrow> pystr \<Rightarrow> pystr" where
  "replace s old new =
     (if old = [] then new @ concat (map (\<lambda>c. c # new) s) else replace_from s old new)"

section \<open>The regular expressions\<close>

text \<open>
  Every pattern of the program is a sequence of single characters and of greedy
  repetitions of one character class, some of them captured. \<open>One P\<close> is one
  character of the class \<open>P\<close>; \<open>Rep n P\<close> is the greedy repetition of \<open>P\<close>, at least
  \<open>n\<close> times; \<open>Cap n P\<close> is the same repetition inside a capturing group.
\<close>

datatype atom =
    One "pychar \<Rightarrow> bool"
  | Rep nat "pychar \<Rightarrow> bool"
  | Cap nat "pychar \<Rightarrow> bool"

type_synonym regex = "atom list"

text \<open>
  A match is the matched text with its captured groups. \<open>greedy n P k s\<close> takes
  characters of \<open>P\<close> from \<open>s\<close> and runs the rest of the pattern \<open>k\<close> on what is left:
  the longest repetition is tried first, and one character is given back at a time
  while the rest fails, as the backtracking engine does.
\<close>

type_synonym match = "pystr \<times> pystr list"

fun greedy :: "nat \<Rightarrow> (pychar \<Rightarrow> bool) \<Rightarrow> (pystr \<Rightarrow> 'a option) \<Rightarrow> pystr \<Rightarrow> (pystr \<times> 'a) option" where
  "greedy n P k [] = (if n = 0 then map_option (Pair []) (k []) else None)"
| "greedy n P k (c # s) =
     (case (if P c then greedy (n - 1) P k s else None) of
        Some (r, x) \<Rightarrow> Some (c # r, x)
      | None \<Rightarrow> if n = 0 then map_option (Pair []) (k (c # s)) else None)"

text \<open>\<open>match_at r s\<close> is \<open>re.match(r, s)\<close>: the pattern is tried at the start of \<open>s\<close> only.\<close>

fun match_at :: "regex \<Rightarrow> pystr \<Rightarrow> match option" where
  "match_at [] s = Some ([], [])"
| "match_at (One P # r) [] = None"
| "match_at (One P # r) (c # s) =
     (if P c then map_option (\<lambda>(m, g). (c # m, g)) (match_at r s) else None)"
| "match_at (Rep n P # r) s =
     map_option (\<lambda>(x, m, g). (x @ m, g)) (greedy n P (match_at r) s)"
| "match_at (Cap n P # r) s =
     map_option (\<lambda>(x, m, g). (x @ m, x # g)) (greedy n P (match_at r) s)"

text \<open>
  \<open>re.search\<close> takes the leftmost start at which the pattern matches; \<open>re.finditer\<close>
  goes on behind each match. Every pattern below begins with a literal character, so
  no match is empty; after an empty match the scan would move on by one character.
\<close>

fun search :: "regex \<Rightarrow> pystr \<Rightarrow> match option" where
  "search r [] = None"
| "search r (c # s) =
     (case match_at r (c # s) of None \<Rightarrow> search r s | Some w \<Rightarrow> Some w)"

fun finditer :: "regex \<Rightarrow> pystr \<Rightarrow> match list" where
  "finditer r [] = []"
| "finditer r (c # s) =
     (case match_at r (c # s) of
        None \<Rightarrow> finditer r s
      | Some (m, g) \<Rightarrow> (m, g) # finditer r (drop (length m - 1) s))"

text \<open>\<open>m.group()\<close> and \<open>m.groups()\<close>.\<close>

definition group :: "match \<Rightarrow> pystr" where
  "group w = fst w"

definition groups :: "match \<Rightarrow> pystr list" where
  "groups w = snd w"

text \<open>\<open>re.findall\<close> for a pattern with one group returns the texts of that group.\<close>

definition findall :: "regex \<Rightarrow> pystr \<Rightarrow> pystr list" where
  "findall r s = map (\<lambda>w. case groups w of [] \<Rightarrow> group w | x # _ \<Rightarrow> x) (finditer r s)"

text \<open>
  A literal character, and a literal letter under \<open>re.IGNORECASE\<close>. For the letters of
  these patterns the flag adds the capital letter, and for \<open>s\<close> also U+017F (long s).
\<close>

definition lit :: "char \<Rightarrow> atom" where
  "lit c = One (\<lambda>x. x = ord c)"

definition ilit :: "char \<Rightarrow> atom" where
  "ilit c = One (\<lambda>x. x = ord c \<or> x + 32 = ord c \<or> (c = CHR ''s'' \<and> x = 383))"

text \<open>
  \<^verbatim>\<open>charset = r"\w|\d|\n|\s|,|.|\-|=|/|:|#|_|{|}|\[|\]"\<close> is only ever used between
  square brackets, where \<open>|\<close> and \<open>.\<close> are ordinary characters.
\<close>

definition charset :: "unicode_db \<Rightarrow> pychar \<Rightarrow> bool" where
  "charset U x =
     (isword U x \<or> x = ord CHR ''|'' \<or> isdecimal U x \<or> x = 10 \<or> isspace x
      \<or> x = ord CHR '','' \<or> x = ord CHR ''.'' \<or> x = ord CHR ''-'' \<or> x = ord CHR ''=''
      \<or> x = ord CHR ''/'' \<or> x = ord CHR '':'' \<or> x = ord CHR ''#'' \<or> x = ord CHR ''_''
      \<or> x = ord CHR ''{'' \<or> x = ord CHR ''}'' \<or> x = ord CHR ''['' \<or> x = ord CHR '']'')"

text \<open>\<^verbatim>\<open>regex_finder = r"\(\"([{\d+}]+)\"\s*-f\s*(['" + charset + "',]+)\)"\<close>\<close>

definition regex_finder :: "unicode_db \<Rightarrow> regex" where
  "regex_finder U =
     [lit CHR ''('', lit CHR 0x22,
      Cap 1 (\<lambda>x. x = ord CHR ''{'' \<or> isdecimal U x \<or> x = ord CHR ''+'' \<or> x = ord CHR ''}''),
      lit CHR 0x22, Rep 0 isspace, lit CHR ''-'', ilit CHR ''f'', Rep 0 isspace,
      Cap 1 (\<lambda>x. x = ord CHR 0x27 \<or> charset U x \<or> x = ord CHR 0x27 \<or> x = ord CHR '',''),
      lit CHR '')'']"

text \<open>\<^verbatim>\<open>regex_position = r"{(\d+)}"\<close>\<close>

definition regex_position :: "unicode_db \<Rightarrow> regex" where
  "regex_position U = [lit CHR ''{'', Cap 1 (isdecimal U), lit CHR ''}'']"

text \<open>\<^verbatim>\<open>regex_content = r"'([" + charset + "]+)'"\<close>\<close>

definition regex_content :: "unicode_db \<Rightarrow> regex" where
  "regex_content U = [lit CHR 0x27, Cap 1 (charset U), lit CHR 0x27]"

text \<open>
  \<^verbatim>\<open>regex_placeholder = r"({#subs_\d+})"\<close>. Its one group is the whole match. The
  program uses it once without flags (\<open>re.match\<close> on a fragment) and once with
  \<open>re.IGNORECASE\<close> (the last sweep).
\<close>

definition regex_placeholder :: "bool \<Rightarrow> unicode_db \<Rightarrow> regex" where
  "regex_placeholder ignorecase U =
     [lit CHR ''{'', lit CHR ''#''] @
     map (if ignorecase then ilit else lit) ''subs'' @
     [lit CHR ''_'', Rep 1 (isdecimal U), lit CHR ''}'']"

text \<open>\<^verbatim>\<open>regex_char = r"\[char\](\d+)"\<close>, always used with \<open>re.IGNORECASE\<close>.\<close>

definition regex_char :: "unicode_db \<Rightarrow> regex" where
  "regex_char U =
     [lit CHR ''[''] @ map ilit ''char'' @ [lit CHR '']'', Cap 1 (isdecimal U)]"

section \<open>The resolver\<close>

text \<open>
  The working state of one line: the text \<open>content\<close>, the counter \<open>count_matches\<close> of
  the placeholders made so far, and the dictionary \<open>occurrences\<close> from placeholder to
  resolved string. The dictionary is only ever read by key.
\<close>

record state =
  content :: pystr
  count_matches :: nat
  occurrences :: "pystr \<rightharpoonup> pystr"

definition quoted :: "pystr \<Rightarrow> pystr" where
  "quoted s = [ord CHR 0x27] @ s @ [ord CHR 0x27]"

definition remove_newlines :: "pystr \<Rightarrow> pystr" where
  "remove_newlines s = replace s [10] []"

text \<open>
  The first loop of a line, over the matches of \<open>regex_char\<close> in the line as it came in:
  \<^verbatim>\<open>
  total = word.group()
  letter = int(word.groups()[0], 10)
  content = content.replace(total, "'" + chr(letter) + "'")
  content = content.replace("`", "")
  \<close>
  The current content is \<open>cur\<close>.
\<close>

fun char_codes :: "unicode_db \<Rightarrow> match list \<Rightarrow> pystr \<Rightarrow> error + pystr" where
  "char_codes U [] cur = Inr cur"
| "char_codes U (word # matches) cur =
     (case py_int U (groups word ! 0) of
        Inl e \<Rightarrow> Inl e
      | Inr letter \<Rightarrow>
          (case py_chr letter of
             Inl e \<Rightarrow> Inl e
           | Inr c \<Rightarrow>
               char_codes U matches
                 (replace (replace cur (group word) (quoted [c])) [ord CHR 0x60] [])))"

text \<open>
  The inner loop \<^verbatim>\<open>for p in positions\<close>, which builds \<open>out\<close>. \<open>int(p)\<close> can raise
  \<open>ValueError\<close>, \<open>contents[int(p)]\<close> raises \<open>IndexError\<close> beyond the list (the index is
  never negative: \<open>p\<close> is made of digits), and the dictionary raises \<open>KeyError\<close> for a
  key that it does not hold.
\<close>

fun reorder :: "unicode_db \<Rightarrow> (pystr \<rightharpoonup> pystr) \<Rightarrow> pystr list \<Rightarrow> pystr list \<Rightarrow> pystr \<Rightarrow> error + pystr" where
  "reorder U occ contents [] out = Inr out"
| "reorder U occ contents (p # positions) out =
     (case py_int U p of
        Inl e \<Rightarrow> Inl e
      | Inr i \<Rightarrow>
          if length contents \<le> i then Inl IndexError
          else if match_at (regex_placeholder False U) (contents ! i) \<noteq> None then
            (case occ (quoted (contents ! i)) of
               None \<Rightarrow> Inl KeyError
             | Some v \<Rightarrow> reorder U occ contents positions (out @ v))
          else reorder U occ contents positions (out @ strip (contents ! i)))"

text \<open>The placeholder \<^verbatim>\<open>"'{#subs_" + str(count_matches) + "}'"\<close>.\<close>

definition placeholder :: "nat \<Rightarrow> pystr" where
  "placeholder n = text ''{#subs_'' @ py_str n @ text ''}''"

text \<open>
  One sweep: the loop over the matches of \<open>regex_finder\<close> in the content as it was when
  the sweep began. A match whose template and fragment list differ in length changes
  nothing.
\<close>

fun sweep :: "unicode_db \<Rightarrow> match list \<Rightarrow> state \<Rightarrow> error + state" where
  "sweep U [] st = Inr st"
| "sweep U (word # matches) st =
     (let positions = findall (regex_position U) (strip (remove_newlines (groups word ! 0)));
          contents = findall (regex_content U) (strip (remove_newlines (groups word ! 1)))
      in if length positions = length contents then
           (case reorder U (occurrences st) contents positions [] of
              Inl e \<Rightarrow> Inl e
            | Inr out \<Rightarrow>
                sweep U matches
                  \<lparr>content = replace (content st) (group word) (quoted (placeholder (count_matches st))),
                   count_matches = count_matches st + 1,
                   occurrences = (occurrences st)(quoted (placeholder (count_matches st)) \<mapsto> out)\<rparr>)
         else sweep U matches st)"

text \<open>
  \<^verbatim>\<open>while re.search(regex_finder, content, re.IGNORECASE): ...\<close> The loop has no bound
  in the source, so it is a partial function: \<open>None\<close> is a loop that never ends,
  \<open>Some (Inl e)\<close> an exception, \<open>Some (Inr st)\<close> the state at the exit.
\<close>

partial_function (option) scanning :: "unicode_db \<Rightarrow> state \<Rightarrow> (error + state) option" where
  "scanning U st =
     (if search (regex_finder U) (content st) = None then Some (Inr st)
      else case sweep U (finditer (regex_finder U) (content st)) st of
             Inl e \<Rightarrow> Some (Inl e)
           | Inr st' \<Rightarrow> scanning U st')"

declare scanning.simps [code]

text \<open>
  The last loop, over the matches of \<open>regex_placeholder\<close> in the content after the scan:
  \<^verbatim>\<open>content = content.replace("'" + word.group() + "'", occurrences["'" + word.group() + "'"])\<close>
\<close>

fun expanding :: "(pystr \<rightharpoonup> pystr) \<Rightarrow> match list \<Rightarrow> pystr \<Rightarrow> error + pystr" where
  "expanding occ [] cur = Inr cur"
| "expanding occ (word # subs) cur =
     (case occ (quoted (group word)) of
        None \<Rightarrow> Inl KeyError
      | Some v \<Rightarrow> expanding occ subs (replace cur (quoted (group word)) v))"

text \<open>The body of \<^verbatim>\<open>for line in lines\<close>.\<close>

definition process_line :: "unicode_db \<Rightarrow> pystr \<Rightarrow> (error + pystr) option" where
  "process_line U line =
     (case char_codes U (finditer (regex_char U) line) line of
        Inl e \<Rightarrow> Some (Inl e)
      | Inr c \<Rightarrow>
          (case scanning U \<lparr>content = c, count_matches = 0, occurrences = Map.empty\<rparr> of
             None \<Rightarrow> None
           | Some (Inl e) \<Rightarrow> Some (Inl e)
           | Some (Inr st) \<Rightarrow>
               Some (expanding (occurrences st)
                       (finditer (regex_placeholder True U) (content st)) (content st))))"

text \<open>
  The function itself: the lines are processed in order and the outputs collected in
  \<open>new_content\<close>. An exception in a line ends the call; a line that never ends keeps
  the call from returning.
\<close>

fun deobfuscate_powershell_reorder :: "unicode_db \<Rightarrow> pystr list \<Rightarrow> (error + pystr list) option" where
  "deobfuscate_powershell_reorder U [] = Some (Inr [])"
| "deobfuscate_powershell_reorder U (line # lines) =
     (case process_line U line of
        None \<Rightarrow> None
      | Some (Inl e) \<Rightarrow> Some (Inl e)
      | Some (Inr c) \<Rightarrow>
          (case deobfuscate_powershell_reorder U lines of
             None \<Rightarrow> None
           | Some (Inl e) \<Rightarrow> Some (Inl e)
           | Some (Inr new_content) \<Rightarrow> Some (Inr (c # new_content))))"

section \<open>Notions used in the proofs\<close>

text \<open>The number of capturing groups of a pattern.\<close>

definition captures :: "regex \<Rightarrow> nat" where
  "captures r = length (filter (\<lambda>a. case a of Cap n P \<Rightarrow> True | _ \<Rightarrow> False) r)"










section \<open>Evaluation on concrete lines\<close>

text \<open>
  The definitions to unfold when a line is evaluated. The lines below are ASCII, so
  the evaluation never reaches the tables of \<open>U\<close> and the results hold for every \<open>U\<close>.
\<close>

lemmas classes = isdecimal_def isalnum_def isword_def isspace_def charset_def ord_def lit_def ilit_def

lemmas patterns = regex_finder_def regex_position_def regex_content_def
  regex_placeholder_def regex_char_def

lemmas builtins = py_int_def py_chr_def py_str.simps digit_of_def strip_def replace_def quoted_def
  remove_newlines_def placeholder_def group_def groups_def findall_def text_def

lemmas run = process_line_def scanning.simps classes patterns builtins

text \<open>
  A sweep that finds a match and changes nothing is followed by the same sweep again:
  the loop does not end.
\<close>

lemma scanning_stuck:
  assumes "search (regex_finder U) (content st) \<noteq> None"
    and "sweep U (finditer (regex_finder U) (content st)) st = Inr st"
  shows "scanning U st = None"
proof (rule ccontr)
  assume "scanning U st \<noteq> None"
  then obtain y where y: "scanning U st = Some y" by blast
  have "\<not> (search (regex_finder U) (content st) \<noteq> None \<and>
      sweep U (finditer (regex_finder U) (content st)) st = Inr st)"
  proof (rule scanning.raw_induct
      [where P = "\<lambda>U st y. \<not> (search (regex_finder U) (content st) \<noteq> None \<and>
          sweep U (finditer (regex_finder U) (content st)) st = Inr st)", OF _ y], goal_cases)
    case (1 f U st y)
    show ?case
    proof
      assume a: "search (regex_finder U) (content st) \<noteq> None \<and>
          sweep U (finditer (regex_finder U) (content st)) st = Inr st"
      with 1(2) have "f U st = Some y" by simp
      from 1(1)[OF this] a show False by blast
    qed
  qed
  with assms show False by blast
qed

section \<open>What a match is made of\<close>












lemma captures_one:
  "captures (regex_position U) = 1" "captures (regex_content U) = 1"
  "captures (regex_char U) = 1"
  by (simp_all add: captures_def regex_position_def regex_content_def regex_char_def lit_def ilit_def)











section \<open>Lines without a hash sign\<close>
































































text \<open>
  C1. The line \<^verbatim>\<open>("{2}{0}{1}" -f 'A','B','C')\<close> comes back as \<open>CAB\<close>: fragment 2, then
  fragment 0, then fragment 1. Inside a longer line the expression is replaced where it
  stands.
\<close>

theorem reorder_basic:
  \<open>deobfuscate_powershell_reorder U [text ''("{2}{0}{1}" -f 'A','B','C')''] =
     Some (Inr [text ''CAB'']) \<and>
   deobfuscate_powershell_reorder U [text ''$s = ("{2}{0}{1}" -f 'A','B','C'); iex $s''] =
     Some (Inr [text ''$s = CAB; iex $s''])\<close>
  by (simp add: run)

text \<open>
  C2. An index beyond the fragment list is said to leave the line unchanged. On the
  line \<^verbatim>\<open>("{5}" -f 'A')\<close> the template and the fragment list both have length 1, the
  length check passes, and \<open>contents[5]\<close> raises \<open>IndexError\<close>: nothing is returned.
\<close>

theorem reorder_index_out_of_range:
  \<open>deobfuscate_powershell_reorder U [text ''("{5}" -f 'A')''] = Some (Inl IndexError)\<close>
  by (simp add: run)

text \<open>
  C3. A template and a fragment list of different lengths are said to leave the line
  unchanged. On the line \<^verbatim>\<open>("{0}{1}" -f 'A','B','C')\<close> the expression is indeed left as
  it is, but it still matches \<open>regex_finder\<close>, so the \<open>while\<close> loop runs again on the
  same content, for ever: the function never returns.
\<close>

theorem reorder_length_mismatch_never_returns:
  \<open>deobfuscate_powershell_reorder U [text ''("{0}{1}" -f 'A','B','C')''] = None\<close>
proof -
  let ?l = \<open>text ''("{0}{1}" -f 'A','B','C')''\<close>
  have "scanning U \<lparr>content = ?l, count_matches = 0, occurrences = Map.empty\<rparr> = None"
    by (rule scanning_stuck) (simp_all add: classes patterns builtins)
  moreover have "char_codes U (finditer (regex_char U) ?l) ?l = Inr ?l"
    by (simp add: classes patterns builtins)
  ultimately show ?thesis by (simp add: process_line_def)
qed

text \<open>
  C4. The scanning loop is said to end on every line. From the state in which the
  line \<^verbatim>\<open>("{0}" -f 'A','B')\<close> enters the loop, one template index against two
  fragments, a sweep finds the match and resolves nothing, and the loop does not end.
\<close>

theorem scanning_does_not_terminate:
  \<open>scanning U \<lparr>content = text ''("{0}" -f 'A','B')'', count_matches = 0,
      occurrences = Map.empty\<rparr> = None\<close>
  by (rule scanning_stuck) (simp_all add: classes patterns builtins)

text \<open>
  C6. Each character-code escape is said to become its character between quotes. The
  loop replaces the text of each escape wherever that text occurs, also at the start
  of a longer escape: in \<^verbatim>\<open>[char]10+[char]101\<close> the text \<^verbatim>\<open>[char]10\<close> is replaced
  twice, and \<^verbatim>\<open>[char]101\<close> (the letter e) is left as a quoted line feed followed by
  the digit 1.
\<close>

theorem char_code_prefix_collision:
  \<open>deobfuscate_powershell_reorder U [text ''[char]10+[char]101''] =
     Some (Inr [quoted [10] @ text ''+'' @ quoted [10] @ text ''1''])\<close>
  by (simp add: run)

text \<open>
  The escape of the specification's example, between two backticks, is converted and
  the backticks are removed.
\<close>

lemma char_code_example:
  \<open>deobfuscate_powershell_reorder U [text ''$a = `[char]72` + "i"''] =
     Some (Inr [text ''$a = 'H' + "i"''])\<close>
  by (simp add: run)






text \<open>When the function returns, it returns one line for each line it was given.\<close>

lemma one_line_per_input:
  "deobfuscate_powershell_reorder U lines = Some (Inr out) \<Longrightarrow> length out = length lines"
  by (induction lines arbitrary: out) (auto split: option.splits sum.splits)

text \<open>
  C9. The function is said to return a line for every input line and to raise nothing
  on malformed input. An exception in one line ends the whole call: with an
  out-of-range index in the second of three lines, no line is returned.
\<close>

theorem exception_ends_the_call:
  \<open>deobfuscate_powershell_reorder U
     [text ''Get-Date'', text ''("{1}" -f 'A')'', text ''Get-Date''] = Some (Inl IndexError)\<close>
  by (simp add: run)








end
